theory Spec2Isabelle
  imports Main
begin

section \<open>The view state of the Home component\<close>

text \<open>
  The component of \<^verbatim>\<open>src/app/page.tsx\<close> owns six state hooks. A profile
  (\<^verbatim>\<open>Record<string, any>\<close>) is an association list; \<^verbatim>\<open>null\<close> is \<open>None\<close>.
\<close>

type_synonym userInfoRec = "(string \<times> string) list"

record view_state =
  userAddress :: string
  userInfo :: "userInfoRec option"
  balance :: "string option"
  recipientAddress :: string
  isSending :: bool
  transactionHash :: "string option"

definition initial_state :: view_state where
  "initial_state =
     \<lparr>userAddress = [], userInfo = None, balance = None, recipientAddress = [],
      isSending = False, transactionHash = None\<rparr>"

section \<open>The external capabilities\<close>

text \<open>
  Every call into an SDK is a parameter of the model: what the call settles to is given by
  the handle. A promise that is awaited settles as \<open>Resolved\<close> or \<open>Rejected\<close>; a
  synchronous call returns (\<open>Resolved\<close>) or throws (\<open>Rejected\<close>).
\<close>

datatype jsError = JsError string

datatype 'a promise = Resolved 'a | Rejected jsError

record tx =
  tx_to :: string
  tx_value :: string
  tx_data :: "string option"

datatype userOp = UserOp string

record GaslessQuote =
  userOp :: "userOp option"
  userOpHash :: "string option"

record FeeQuotes =
  verifyingPaymasterGasless :: "GaslessQuote option"

record SmartAccount =
  getAddress :: "string promise"
  getFeeQuotes :: "tx \<Rightarrow> FeeQuotes option promise"
  sendUserOperation :: "userOp \<Rightarrow> string \<Rightarrow> string option promise"

record PublicClient =
  getBalance :: "string \<Rightarrow> int promise"

record TxReceipt =
  hash :: string

record TxResponse =
  wait :: "TxReceipt option promise"

record Signer =
  sendTransaction :: "tx \<Rightarrow> TxResponse promise"

record Provider =
  getSigner :: "Signer promise"

text \<open>The auth accessor may be absent or not a function (\<^verbatim>\<open>typeof getUserInfo\<close>).\<close>

datatype accessor = NotAFunction | Function "userInfoRec option promise"

text \<open>
  What the hooks and imports hand to one render of the component. \<open>browserProvider\<close> is
  \<^verbatim>\<open>new ethers.BrowserProvider(new AAWrapProvider(smartAccount, Gasless), "any")\<close>;
  \<open>formatEther\<close> is viem's; \<open>formatBalance\<close> is the helper of \<^verbatim>\<open>@/utils/utils\<close>, whose
  source is not part of \<^verbatim>\<open>page.tsx\<close> and which may throw.
\<close>

record hooks =
  isConnected :: bool
  getUserInfo :: accessor
  publicClient :: "PublicClient option"
  smartAccount :: "SmartAccount option"
  browserProvider :: "SmartAccount \<Rightarrow> Provider"
  formatEther :: "int \<Rightarrow> string"
  formatBalance :: "string \<Rightarrow> string promise"

section \<open>Executions as event lists\<close>

text \<open>
  An execution of an async function is the list of what it does, in order: state setter
  calls, console output, calls into the SDKs, and \<open>Await\<close> where the function is suspended
  and the event loop (and a render) can run. It ends fulfilled or rejected.
\<close>

datatype extcall =
    GetAddress
  | GetBalance string
  | GetUserInfo
  | GetFeeQuotes tx
  | SendUserOperation userOp string
  | GetSigner
  | SendTransaction tx
  | WaitReceipt

datatype logarg = ErrArg jsError | StrArg string | NullArg

datatype event =
    SetUserAddress string
  | SetUserInfo userInfoRec
  | SetBalance string
  | SetRecipientAddress string
  | SetIsSending bool
  | SetTransactionHash "string option"
  | ConsoleLog string "logarg list"
  | ConsoleWarn string "logarg list"
  | ConsoleError string "logarg list"
  | Call extcall
  | Await

datatype completion = Fulfilled | RejectedWith jsError

record exec =
  events :: "event list"
  completion :: completion

fun apply_event :: "event \<Rightarrow> view_state \<Rightarrow> view_state" where
  "apply_event (SetUserAddress a) s = s\<lparr>userAddress := a\<rparr>"
| "apply_event (SetUserInfo i) s = s\<lparr>userInfo := Some i\<rparr>"
| "apply_event (SetBalance b) s = s\<lparr>balance := Some b\<rparr>"
| "apply_event (SetRecipientAddress r) s = s\<lparr>recipientAddress := r\<rparr>"
| "apply_event (SetIsSending b) s = s\<lparr>isSending := b\<rparr>"
| "apply_event (SetTransactionHash h) s = s\<lparr>transactionHash := h\<rparr>"
| "apply_event (ConsoleLog m as) s = s"
| "apply_event (ConsoleWarn m as) s = s"
| "apply_event (ConsoleError m as) s = s"
| "apply_event (Call c) s = s"
| "apply_event Await s = s"

text \<open>The state once every event has happened.\<close>

fun final_state :: "event list \<Rightarrow> view_state \<Rightarrow> view_state" where
  "final_state [] s = s"
| "final_state (e # es) s = final_state es (apply_event e s)"

text \<open>
  The states that can be seen while the function is suspended: one for each \<open>Await\<close>,
  strictly between the invocation and the completion.
\<close>

fun observed :: "event list \<Rightarrow> view_state \<Rightarrow> view_state list" where
  "observed [] s = []"
| "observed (e # es) s =
     (if e = Await then s # observed es s else observed es (apply_event e s))"

section \<open>JavaScript truthiness\<close>

text \<open>A string is truthy when it is not empty; \<^verbatim>\<open>null\<close> and \<^verbatim>\<open>undefined\<close> are falsy.\<close>

fun truthy :: "string option \<Rightarrow> bool" where
  "truthy None = False"
| "truthy (Some h) = (h \<noteq> [])"

text \<open>\<^verbatim>\<open>x || null\<close> for a string, \<^verbatim>\<open>null\<close> or \<^verbatim>\<open>undefined\<close> \<open>x\<close>.\<close>

definition or_null :: "string option \<Rightarrow> string option" where
  "or_null x = (if truthy x then x else None)"

section \<open>The balance fetcher\<close>

text \<open>
  \<^verbatim>\<open>fetchBalance\<close>, lines 66 to 85. A bigint is truthy when it is not zero.
\<close>

definition fetchBalance :: "hooks \<Rightarrow> string \<Rightarrow> exec" where
  "fetchBalance env address =
     (case publicClient env of
        None \<Rightarrow> \<lparr>events = [], completion = Fulfilled\<rparr>
      | Some client \<Rightarrow>
          \<lparr>events =
             [Call (GetBalance address), Await] @
             (case getBalance client address of
                Rejected err \<Rightarrow>
                  [ConsoleError ''Error fetching balance:'' [ErrArg err], SetBalance ''0.0'']
              | Resolved balanceResponse \<Rightarrow>
                  (let balanceInEther =
                         (if balanceResponse \<noteq> 0 then formatEther env balanceResponse
                          else ''0.0'')
                   in case formatBalance env balanceInEther of
                        Resolved formatted \<Rightarrow> [SetBalance formatted]
                      | Rejected err \<Rightarrow>
                          [ConsoleError ''Error fetching balance:'' [ErrArg err],
                           SetBalance ''0.0''])),
           completion = Fulfilled\<rparr>)"

section \<open>The user-info fetcher\<close>

text \<open>
  \<^verbatim>\<open>fetchUserInfo\<close>, lines 87 to 103. The accessor is called without \<^verbatim>\<open>await\<close>, so
  the function never suspends.
\<close>

definition fetchUserInfo :: "hooks \<Rightarrow> exec" where
  "fetchUserInfo env =
     (case getUserInfo env of
        Function result \<Rightarrow>
          \<lparr>events =
             [ConsoleLog ''function'' [], Call GetUserInfo] @
             (case result of
                Resolved info \<Rightarrow>
                  (case info of
                     Some i \<Rightarrow> [SetUserInfo i]
                   | None \<Rightarrow> [ConsoleWarn ''getUserInfo returned null or undefined.'' []])
              | Rejected err \<Rightarrow> [ConsoleWarn ''getUserInfo failed:'' [ErrArg err]]),
           completion = Fulfilled\<rparr>
      | NotAFunction \<Rightarrow>
          \<lparr>events = [ConsoleWarn ''Skipping getUserInfo: Function is not available.'' []],
           completion = Fulfilled\<rparr>)"

section \<open>The account-load orchestrator\<close>

text \<open>
  What an async function does when called, up to its first suspension, and what it does
  after that.
\<close>

definition first_segment :: "event list \<Rightarrow> event list" where
  "first_segment es = takeWhile (\<lambda>e. e \<noteq> Await) es"

definition continuation :: "event list \<Rightarrow> event list" where
  "continuation es = drop 1 (dropWhile (\<lambda>e. e \<noteq> Await) es)"

text \<open>
  \<^verbatim>\<open>loadUserData\<close>, lines 106 to 117, run by the effect. In
  \<^verbatim>\<open>Promise.all([fetchBalance(address), fetchUserInfo()])\<close> the array is built first:
  \<^verbatim>\<open>fetchBalance\<close> runs up to its \<^verbatim>\<open>await\<close>, then \<^verbatim>\<open>fetchUserInfo\<close> runs (it never
  suspends), then \<^verbatim>\<open>loadUserData\<close> is suspended on the combined promise and the balance
  fetch goes on. A rejection of either promise rejects the combined one, which the
  \<^verbatim>\<open>catch\<close> logs.
\<close>

definition loadUserData :: "hooks \<Rightarrow> exec" where
  "loadUserData env =
     (if \<not> isConnected env then \<lparr>events = [], completion = Fulfilled\<rparr>
      else case smartAccount env of
        None \<Rightarrow> \<lparr>events = [], completion = Fulfilled\<rparr>
      | Some account \<Rightarrow>
          \<lparr>events =
             [Call GetAddress, Await] @
             (case getAddress account of
                Rejected err \<Rightarrow> [ConsoleError ''Error loading account data:'' [ErrArg err]]
              | Resolved address \<Rightarrow>
                  (let fb = fetchBalance env address; fu = fetchUserInfo env
                   in [SetUserAddress address] @
                      first_segment (events fb) @ events fu @ [Await] @
                      continuation (events fb) @
                      (case (completion fb, completion fu) of
                         (Fulfilled, Fulfilled) \<Rightarrow> []
                       | (RejectedWith err, _) \<Rightarrow>
                           [ConsoleError ''Error loading account data:'' [ErrArg err]]
                       | (Fulfilled, RejectedWith err) \<Rightarrow>
                           [ConsoleError ''Error loading account data:'' [ErrArg err]]))),
           completion = Fulfilled\<rparr>)"

section \<open>Amounts\<close>

text \<open>
  \<^verbatim>\<open>parseEther\<close> is viem's \<^verbatim>\<open>parseUnits(value, 18)\<close>, a library function: a decimal
  literal, with an optional sign and an optional fraction, becomes the integer of base
  units. The model follows the library: the sign is split off, the text is cut at the
  point (a missing fraction is \<^verbatim>\<open>'0'\<close>), trailing zeros of the fraction are dropped, the
  fraction is padded with zeros to 18 digits, and the digits are read as one integer.
  \<open>None\<close> stands for the library raising \<^verbatim>\<open>InvalidDecimalNumberError\<close>; a fraction of
  more than 18 digits, which the library rounds, is outside the model and \<open>None\<close> too.
\<close>

definition isDigit :: "char \<Rightarrow> bool" where
  "isDigit c = (c \<in> set ''0123456789'')"

definition digitVal :: "char \<Rightarrow> int" where
  "digitVal c = int (length (takeWhile (\<lambda>d. d \<noteq> c) ''0123456789''))"

text \<open>\<^verbatim>\<open>BigInt(digits)\<close> for a string of decimal digits (the empty string is 0).\<close>

definition bigIntOfDigits :: "string \<Rightarrow> int" where
  "bigIntOfDigits ds = foldl (\<lambda>n c. 10 * n + digitVal c) 0 ds"

definition parseUnits :: "string \<Rightarrow> nat \<Rightarrow> int option" where
  "parseUnits v decimals =
     (let negative = (case v of [] \<Rightarrow> False | c # cs \<Rightarrow> c = CHR ''-'');
          body = (if negative then drop 1 v else v);
          integer = takeWhile (\<lambda>c. c \<noteq> CHR ''.'') body;
          fraction0 = (case dropWhile (\<lambda>c. c \<noteq> CHR ''.'') body of
                         [] \<Rightarrow> ''0'' | dot # f \<Rightarrow> f)
      in if \<not> (list_all isDigit integer \<and> list_all isDigit fraction0) then None
         else
           (let fraction = rev (dropWhile (\<lambda>c. c = CHR ''0'') (rev fraction0))
            in if decimals < length fraction then None
               else
                 (let padded = fraction @ replicate (decimals - length fraction) (CHR ''0'');
                      n = bigIntOfDigits (integer @ padded)
                  in Some (if negative then - n else n))))"

definition parseEther :: "string \<Rightarrow> int option" where
  "parseEther v = parseUnits v 18"

text \<open>\<^verbatim>\<open>BigInt.prototype.toString()\<close>: the decimal digits, with a sign when negative.\<close>

definition digitChar :: "int \<Rightarrow> char" where
  "digitChar d = ''0123456789'' ! nat (d mod 10)"

function digitsOf :: "int \<Rightarrow> string" where
  "digitsOf n =
     (if n < 10 then [digitChar n] else digitsOf (n div 10) @ [digitChar (n mod 10)])"
  by pat_completeness auto
termination
  by (relation "measure (\<lambda>n. nat n)") auto

declare digitsOf.simps [simp del]

definition bigintToString :: "int \<Rightarrow> string" where
  "bigintToString i = (if i < 0 then CHR ''-'' # digitsOf (- i) else digitsOf i)"

section \<open>The native transaction sender\<close>

text \<open>
  \<^verbatim>\<open>executeTxNative\<close>, lines 133 to 164. The handler reads \<^verbatim>\<open>recipientAddress\<close> and
  \<^verbatim>\<open>smartAccount\<close> as the render that created it saw them. The body of the \<^verbatim>\<open>try\<close> is
  \<open>nativeTry\<close>; every throw in it ends in the \<^verbatim>\<open>catch\<close>, and the \<^verbatim>\<open>finally\<close> runs in
  all cases.
\<close>

definition nativeTx :: "string \<Rightarrow> int \<Rightarrow> tx" where
  "nativeTx recipient wei =
     \<lparr>tx_to = recipient, tx_value = bigintToString wei, tx_data = Some ''0x''\<rparr>"

text \<open>
  \<^verbatim>\<open>const { userOp, userOpHash } = feeQuotesResult?.verifyingPaymasterGasless || {}\<close>
\<close>

definition sponsoredOp :: "FeeQuotes option \<Rightarrow> userOp option" where
  "sponsoredOp feeQuotesResult =
     (case feeQuotesResult of
        None \<Rightarrow> None
      | Some q \<Rightarrow> (case verifyingPaymasterGasless q of None \<Rightarrow> None | Some g \<Rightarrow> userOp g))"

definition sponsoredHash :: "FeeQuotes option \<Rightarrow> string option" where
  "sponsoredHash feeQuotesResult =
     (case feeQuotesResult of
        None \<Rightarrow> None
      | Some q \<Rightarrow>
          (case verifyingPaymasterGasless q of None \<Rightarrow> None | Some g \<Rightarrow> userOpHash g))"

text \<open>
  From \<^verbatim>\<open>if (userOp && userOpHash)\<close> on: \<^verbatim>\<open>userOp\<close> is an object, truthy when present;
  the hash is a string.
\<close>

definition nativeSubmit :: "SmartAccount \<Rightarrow> FeeQuotes option \<Rightarrow> event list" where
  "nativeSubmit account feeQuotesResult =
     (case sponsoredOp feeQuotesResult of
        None \<Rightarrow> [ConsoleError ''User operation is undefined'' []]
      | Some uo \<Rightarrow>
          (case sponsoredHash feeQuotesResult of
             None \<Rightarrow> [ConsoleError ''User operation is undefined'' []]
           | Some h \<Rightarrow>
               (if h = [] then [ConsoleError ''User operation is undefined'' []]
                else
                  [Call (SendUserOperation uo h), Await] @
                  (case sendUserOperation account uo h of
                     Rejected err \<Rightarrow>
                       [ConsoleError ''Failed to send transaction:'' [ErrArg err]]
                   | Resolved sent \<Rightarrow>
                       (let txHash = or_null sent
                        in [SetTransactionHash txHash,
                            ConsoleLog ''Transaction sent:''
                              [case txHash of
                                 None \<Rightarrow> NullArg
                               | Some t \<Rightarrow> StrArg t]])))))"

definition nativeTry :: "hooks \<Rightarrow> view_state \<Rightarrow> event list" where
  "nativeTry env s =
     (case parseEther ''0.01'' of
        None \<Rightarrow>
          [ConsoleError ''Failed to send transaction:''
             [ErrArg (JsError ''InvalidDecimalNumberError'')]]
      | Some wei \<Rightarrow>
          (let tx = nativeTx (recipientAddress s) wei
           in case smartAccount env of
                None \<Rightarrow> [Await, ConsoleError ''User operation is undefined'' []]
              | Some account \<Rightarrow>
                  [Call (GetFeeQuotes tx), Await] @
                  (case getFeeQuotes account tx of
                     Rejected err \<Rightarrow>
                       [ConsoleError ''Failed to send transaction:'' [ErrArg err]]
                   | Resolved feeQuotesResult \<Rightarrow> nativeSubmit account feeQuotesResult)))"

definition executeTxNative :: "hooks \<Rightarrow> view_state \<Rightarrow> exec" where
  "executeTxNative env s =
     \<lparr>events = [SetIsSending True] @ nativeTry env s @ [SetIsSending False],
      completion = Fulfilled\<rparr>"

section \<open>The provider-based transaction sender\<close>

text \<open>The provider exists exactly when a smart account does (lines 52 to 60).\<close>

definition customProvider :: "hooks \<Rightarrow> Provider option" where
  "customProvider env =
     (case smartAccount env of
        Some account \<Rightarrow> Some (browserProvider env account)
      | None \<Rightarrow> None)"

definition ethersTx :: "string \<Rightarrow> int \<Rightarrow> tx" where
  "ethersTx recipient wei =
     \<lparr>tx_to = recipient, tx_value = bigintToString wei, tx_data = None\<rparr>"

text \<open>
  The body of the \<^verbatim>\<open>try\<close> of \<^verbatim>\<open>executeTxEthers\<close>, lines 176 to 184. The awaited
  confirmation may resolve \<^verbatim>\<open>null\<close>; \<^verbatim>\<open>txReceipt?.hash\<close> is then \<^verbatim>\<open>undefined\<close>.
\<close>

definition ethersTry :: "Signer \<Rightarrow> view_state \<Rightarrow> event list" where
  "ethersTry signer s =
     (case parseEther ''0.01'' of
        None \<Rightarrow>
          [ConsoleError ''Failed to send transaction using ethers.js:''
             [ErrArg (JsError ''InvalidDecimalNumberError'')]]
      | Some wei \<Rightarrow>
          (let tx = ethersTx (recipientAddress s) wei
           in [Call (SendTransaction tx), Await] @
              (case sendTransaction signer tx of
                 Rejected err \<Rightarrow>
                   [ConsoleError ''Failed to send transaction using ethers.js:'' [ErrArg err]]
               | Resolved txResponse \<Rightarrow>
                   [Call WaitReceipt, Await] @
                   (case wait txResponse of
                      Rejected err \<Rightarrow>
                        [ConsoleError ''Failed to send transaction using ethers.js:''
                           [ErrArg err]]
                    | Resolved txReceipt \<Rightarrow>
                        [SetTransactionHash (or_null (map_option hash txReceipt))]))))"

text \<open>
  \<^verbatim>\<open>executeTxEthers\<close>, lines 170 to 190. The guard and the \<^verbatim>\<open>await\<close> of the signer
  come before \<^verbatim>\<open>setIsSending(true)\<close> and before the \<^verbatim>\<open>try\<close>: a rejected
  \<^verbatim>\<open>getSigner\<close> rejects the handler.
\<close>

definition executeTxEthers :: "hooks \<Rightarrow> view_state \<Rightarrow> exec" where
  "executeTxEthers env s =
     (case customProvider env of
        None \<Rightarrow> \<lparr>events = [], completion = Fulfilled\<rparr>
      | Some provider \<Rightarrow>
          (case getSigner provider of
             Rejected err \<Rightarrow>
               \<lparr>events = [Call GetSigner, Await], completion = RejectedWith err\<rparr>
           | Resolved signer \<Rightarrow>
               \<lparr>events =
                  [Call GetSigner, Await, SetIsSending True] @ ethersTry signer s @
                  [SetIsSending False],
                completion = Fulfilled\<rparr>))"

section \<open>What can happen to the view\<close>

text \<open>
  The triggers of the component: the effect, the refresh button, the recipient input and
  the two send buttons, and the two fetchers on their own.
\<close>

datatype operation =
    LoadUserData hooks
  | FetchBalance hooks string
  | FetchUserInfo hooks
  | RefreshBalance hooks
  | ChangeRecipient string
  | ExecuteTxNative hooks
  | ExecuteTxEthers hooks

fun perform :: "operation \<Rightarrow> view_state \<Rightarrow> exec" where
  "perform (LoadUserData env) s = loadUserData env"
| "perform (FetchBalance env a) s = fetchBalance env a"
| "perform (FetchUserInfo env) s = fetchUserInfo env"
| "perform (RefreshBalance env) s = fetchBalance env (userAddress s)"
| "perform (ChangeRecipient v) s =
     \<lparr>events = [SetRecipientAddress v], completion = Fulfilled\<rparr>"
| "perform (ExecuteTxNative env) s = executeTxNative env s"
| "perform (ExecuteTxEthers env) s = executeTxEthers env s"

section \<open>What the senders may touch\<close>

text \<open>The part of the view that belongs to the account panel and the input field.\<close>

definition frame :: "view_state \<Rightarrow> string \<times> userInfoRec option \<times> string option \<times> string" where
  "frame s = (userAddress s, userInfo s, balance s, recipientAddress s)"

text \<open>Events that leave that part alone.\<close>

fun sender_event :: "event \<Rightarrow> bool" where
  "sender_event (SetUserAddress a) = False"
| "sender_event (SetUserInfo i) = False"
| "sender_event (SetBalance b) = False"
| "sender_event (SetRecipientAddress r) = False"
| "sender_event e = True"

text \<open>Events that leave the transaction hash alone.\<close>

fun keeps_hash :: "event \<Rightarrow> bool" where
  "keeps_hash (SetTransactionHash h) = False"
| "keeps_hash e = True"


section \<open>Sample environments\<close>

text \<open>A connected session in which every call into the SDKs succeeds.\<close>

definition demo_quote :: "FeeQuotes option" where
  "demo_quote =
     Some \<lparr>verifyingPaymasterGasless =
             Some \<lparr>userOp = Some (UserOp ''op''), userOpHash = Some ''0xop''\<rparr>\<rparr>"

definition demo_account :: SmartAccount where
  "demo_account =
     \<lparr>getAddress = Resolved ''0xa11ce'',
      getFeeQuotes = (\<lambda>t. Resolved demo_quote),
      sendUserOperation = (\<lambda>uo h. Resolved (Some ''0xabc''))\<rparr>"

definition demo_signer :: Signer where
  "demo_signer =
     \<lparr>sendTransaction = (\<lambda>t. Resolved \<lparr>wait = Resolved (Some \<lparr>hash = ''0xdef''\<rparr>)\<rparr>)\<rparr>"

definition demo_hooks :: hooks where
  "demo_hooks =
     \<lparr>isConnected = True,
      getUserInfo = Function (Resolved (Some [(''name'', ''Ada'')])),
      publicClient = Some \<lparr>getBalance = (\<lambda>a. Resolved 1500000000000000000)\<rparr>,
      smartAccount = Some demo_account,
      browserProvider = (\<lambda>a. \<lparr>getSigner = Resolved demo_signer\<rparr>),
      formatEther = (\<lambda>w. ''1.5''),
      formatBalance = (\<lambda>b. Resolved (b @ ''0''))\<rparr>"

text \<open>A view with the address loaded and a recipient typed in, nothing sent yet.\<close>

definition ready_state :: view_state where
  "ready_state = initial_state\<lparr>userAddress := ''0xa11ce'', recipientAddress := ''0xb0b''\<rparr>"

text \<open>A view that already shows the hash of an earlier send.\<close>

definition sent_state :: view_state where
  "sent_state =
     initial_state\<lparr>userAddress := ''0xa11ce'', recipientAddress := ''0xb0b'',
                    transactionHash := Some ''0x01''\<rparr>"

text \<open>The same session with a bundler that rejects the operation.\<close>

definition rejecting_hooks :: hooks where
  "rejecting_hooks =
     demo_hooks\<lparr>smartAccount :=
       Some (demo_account\<lparr>sendUserOperation := (\<lambda>uo h. Rejected (JsError ''bundler''))\<rparr>)\<rparr>"


text \<open>The same session with a submission that resolves \<^verbatim>\<open>null\<close>.\<close>

definition null_hash_hooks :: hooks where
  "null_hash_hooks =
     demo_hooks\<lparr>smartAccount :=
       Some (demo_account\<lparr>sendUserOperation := (\<lambda>uo h. Resolved None)\<rparr>)\<rparr>"

text \<open>The same session with a wallet that does not give the address.\<close>

definition locked_hooks :: hooks where
  "locked_hooks =
     demo_hooks\<lparr>smartAccount :=
       Some (demo_account\<lparr>getAddress := Rejected (JsError ''wallet'')\<rparr>)\<rparr>"

text \<open>The same session with a read client whose balance query rejects.\<close>

definition offline_hooks :: hooks where
  "offline_hooks =
     demo_hooks\<lparr>publicClient := Some \<lparr>getBalance = (\<lambda>a. Rejected (JsError ''rpc''))\<rparr>\<rparr>"

section \<open>Overlapping calls\<close>

text \<open>
  Between two suspensions a handler runs alone; at a suspension another handler can run.
  \<open>upto_await n es\<close> is the part of an execution up to and with its \<open>n\<close>-th suspension,
  \<open>after_await n es\<close> the part after it.
\<close>

fun upto_await :: "nat \<Rightarrow> event list \<Rightarrow> event list" where
  "upto_await n [] = []"
| "upto_await 0 (e # es) = []"
| "upto_await (Suc n) (e # es) =
     (if e = Await then e # upto_await n es else e # upto_await (Suc n) es)"

fun after_await :: "nat \<Rightarrow> event list \<Rightarrow> event list" where
  "after_await n [] = []"
| "after_await 0 (e # es) = e # es"
| "after_await (Suc n) (e # es) =
     (if e = Await then after_await n es else after_await (Suc n) es)"

section \<open>Facts about events and amounts\<close>

lemma parseEther_literal: "parseEther ''0.01'' = Some 10000000000000000"
  by code_simp

lemma bigintToString_literal: "bigintToString 10000000000000000 = ''10000000000000000''"
  by code_simp

lemma final_state_append:
  "final_state (xs @ ys) s = final_state ys (final_state xs s)"
  by (induction xs arbitrary: s) simp_all

lemma observed_append:
  "observed (xs @ ys) s = observed xs s @ observed ys (final_state xs s)"
  by (induction xs arbitrary: s) simp_all

section \<open>The balance fetcher falls back\<close>

text \<open>
  Claim C4. \<^verbatim>\<open>fetchBalance\<close> does nothing when there is no read client. For every
  address, when the balance query fails (the awaited \<^verbatim>\<open>getBalance\<close> rejects) it logs the
  error and sets the balance to the literal \<^verbatim>\<open>"0.0"\<close>; the same happens when the
  formatting helper throws inside the \<^verbatim>\<open>try\<close>. In every case the returned promise is
  fulfilled: nothing is thrown to the caller.
\<close>

theorem fetchBalance_falls_back:
  "completion (fetchBalance env a) = Fulfilled \<and>
   (publicClient env = None \<longrightarrow>
      events (fetchBalance env a) = [] \<and> final_state (events (fetchBalance env a)) s = s) \<and>
   (\<forall>client err.
      publicClient env = Some client \<and> getBalance client a = Rejected err \<longrightarrow>
      events (fetchBalance env a) =
        [Call (GetBalance a), Await,
         ConsoleError ''Error fetching balance:'' [ErrArg err], SetBalance ''0.0''] \<and>
      balance (final_state (events (fetchBalance env a)) s) = Some ''0.0'') \<and>
   (\<forall>client v err.
      publicClient env = Some client \<and> getBalance client a = Resolved v \<and>
      formatBalance env (if v \<noteq> 0 then formatEther env v else ''0.0'') = Rejected err \<longrightarrow>
      ConsoleError ''Error fetching balance:'' [ErrArg err] \<in> set (events (fetchBalance env a)) \<and>
      balance (final_state (events (fetchBalance env a)) s) = Some ''0.0'')"
  by (simp add: fetchBalance_def split: option.splits promise.splits)

theorem fetchBalance_falls_back_witness:
  "events (fetchBalance (demo_hooks\<lparr>publicClient := None\<rparr>) ''0xa11ce'') = [] \<and>
   completion
     (fetchBalance
        (demo_hooks\<lparr>publicClient := Some \<lparr>getBalance = (\<lambda>a. Rejected (JsError ''rpc''))\<rparr>\<rparr>)
        ''0xa11ce'') = Fulfilled \<and>
   balance
     (final_state
        (events
           (fetchBalance
              (demo_hooks\<lparr>publicClient := Some \<lparr>getBalance = (\<lambda>a. Rejected (JsError ''rpc''))\<rparr>\<rparr>)
              ''0xa11ce''))
        sent_state) = Some ''0.0'' \<and>
   balance
     (final_state
        (events
           (fetchBalance
              (demo_hooks\<lparr>formatBalance := (\<lambda>b. Rejected (JsError ''format''))\<rparr>)
              ''0xa11ce''))
        sent_state) = Some ''0.0''"
  using
    fetchBalance_falls_back [of "demo_hooks\<lparr>publicClient := None\<rparr>" "''0xa11ce''" sent_state]
    fetchBalance_falls_back
      [of "demo_hooks\<lparr>publicClient := Some \<lparr>getBalance = (\<lambda>a. Rejected (JsError ''rpc''))\<rparr>\<rparr>"
          "''0xa11ce''" sent_state]
    fetchBalance_falls_back
      [of "demo_hooks\<lparr>formatBalance := (\<lambda>b. Rejected (JsError ''format''))\<rparr>"
          "''0xa11ce''" sent_state]
  by (simp add: demo_hooks_def)

section \<open>The user-info fetcher leaves the state alone on failure\<close>

text \<open>
  Claim C7. \<^verbatim>\<open>fetchUserInfo\<close> never surfaces an error: its promise is fulfilled in every
  case. When the accessor is not a function, when it returns \<^verbatim>\<open>null\<close> or
  \<^verbatim>\<open>undefined\<close>, and when it throws, the function writes one warning and the state is
  what it was, \<open>userInfo\<close> included. It sets \<open>userInfo\<close> when the accessor returns a
  profile, and a changed \<open>userInfo\<close> means the accessor returned one.
\<close>

theorem fetchUserInfo_failures:
  "completion (fetchUserInfo env) = Fulfilled \<and>
   (getUserInfo env = NotAFunction \<longrightarrow>
      events (fetchUserInfo env) =
        [ConsoleWarn ''Skipping getUserInfo: Function is not available.'' []] \<and>
      final_state (events (fetchUserInfo env)) s = s) \<and>
   (getUserInfo env = Function (Resolved None) \<longrightarrow>
      events (fetchUserInfo env) =
        [ConsoleLog ''function'' [], Call GetUserInfo,
         ConsoleWarn ''getUserInfo returned null or undefined.'' []] \<and>
      final_state (events (fetchUserInfo env)) s = s) \<and>
   (\<forall>err. getUserInfo env = Function (Rejected err) \<longrightarrow>
      events (fetchUserInfo env) =
        [ConsoleLog ''function'' [], Call GetUserInfo,
         ConsoleWarn ''getUserInfo failed:'' [ErrArg err]] \<and>
      final_state (events (fetchUserInfo env)) s = s) \<and>
   (\<forall>i. getUserInfo env = Function (Resolved (Some i)) \<longrightarrow>
      final_state (events (fetchUserInfo env)) s = s\<lparr>userInfo := Some i\<rparr>) \<and>
   (userInfo (final_state (events (fetchUserInfo env)) s) \<noteq> userInfo s \<longrightarrow>
      getUserInfo env =
        Function (Resolved (userInfo (final_state (events (fetchUserInfo env)) s))))"
  by (cases "getUserInfo env")
     (auto simp add: fetchUserInfo_def split: option.splits promise.splits)

theorem fetchUserInfo_failures_witness:
  "final_state (events (fetchUserInfo (demo_hooks\<lparr>getUserInfo := NotAFunction\<rparr>))) sent_state
     = sent_state \<and>
   final_state (events (fetchUserInfo (demo_hooks\<lparr>getUserInfo := Function (Resolved None)\<rparr>)))
     sent_state = sent_state \<and>
   final_state
     (events (fetchUserInfo (demo_hooks\<lparr>getUserInfo := Function (Rejected (JsError ''auth''))\<rparr>)))
     sent_state = sent_state \<and>
   final_state (events (fetchUserInfo demo_hooks)) sent_state
     = sent_state\<lparr>userInfo := Some [(''name'', ''Ada'')]\<rparr>"
  using
    fetchUserInfo_failures [of "demo_hooks\<lparr>getUserInfo := NotAFunction\<rparr>" sent_state]
    fetchUserInfo_failures [of "demo_hooks\<lparr>getUserInfo := Function (Resolved None)\<rparr>" sent_state]
    fetchUserInfo_failures
      [of "demo_hooks\<lparr>getUserInfo := Function (Rejected (JsError ''auth''))\<rparr>" sent_state]
    fetchUserInfo_failures [of demo_hooks sent_state]
  by (simp add: demo_hooks_def)

section \<open>Paths and frames\<close>

text \<open>The two \<^verbatim>\<open>try\<close> bodies with the amount literal evaluated.\<close>

lemma nativeTry_literal:
  "nativeTry env s =
     (case smartAccount env of
        None \<Rightarrow> [Await, ConsoleError ''User operation is undefined'' []]
      | Some account \<Rightarrow>
          [Call (GetFeeQuotes (nativeTx (recipientAddress s) 10000000000000000)), Await] @
          (case getFeeQuotes account (nativeTx (recipientAddress s) 10000000000000000) of
             Rejected err \<Rightarrow> [ConsoleError ''Failed to send transaction:'' [ErrArg err]]
           | Resolved feeQuotesResult \<Rightarrow> nativeSubmit account feeQuotesResult))"
  by (simp add: nativeTry_def parseEther_literal Let_def)

lemma ethersTry_literal:
  "ethersTry signer s =
     [Call (SendTransaction (ethersTx (recipientAddress s) 10000000000000000)), Await] @
     (case sendTransaction signer (ethersTx (recipientAddress s) 10000000000000000) of
        Rejected err \<Rightarrow>
          [ConsoleError ''Failed to send transaction using ethers.js:'' [ErrArg err]]
      | Resolved txResponse \<Rightarrow>
          [Call WaitReceipt, Await] @
          (case wait txResponse of
             Rejected err \<Rightarrow>
               [ConsoleError ''Failed to send transaction using ethers.js:'' [ErrArg err]]
           | Resolved txReceipt \<Rightarrow>
               [SetTransactionHash (or_null (map_option hash txReceipt))]))"
  by (simp add: ethersTry_def parseEther_literal Let_def)

text \<open>Filters of an event list pass to its segments.\<close>

lemma list_all_takeWhile: "list_all P xs \<Longrightarrow> list_all P (takeWhile Q xs)"
  by (induction xs) simp_all

lemma list_all_dropWhile: "list_all P xs \<Longrightarrow> list_all P (dropWhile Q xs)"
  by (induction xs) simp_all

lemma list_all_drop: "list_all P xs \<Longrightarrow> list_all P (drop n xs)"
  by (simp add: list_all_iff) (meson in_set_dropD)

lemma segments_keep:
  "list_all P es \<Longrightarrow> list_all P (first_segment es) \<and> list_all P (continuation es)"
  by (simp add: first_segment_def continuation_def list_all_takeWhile list_all_dropWhile
      list_all_drop)

text \<open>The account panel and the input field under sender events.\<close>

lemma sender_event_frame: "sender_event e \<Longrightarrow> frame (apply_event e s) = frame s"
  by (cases e) (simp_all add: frame_def)

lemma sender_events_final:
  "list_all sender_event es \<Longrightarrow> frame (final_state es s) = frame s"
  by (induction es arbitrary: s) (simp_all add: sender_event_frame)

lemma sender_events_observed:
  "list_all sender_event es \<Longrightarrow> s' \<in> set (observed es s) \<Longrightarrow> frame s' = frame s"
  by (induction es arbitrary: s) (auto simp add: sender_event_frame split: if_splits)

lemma nativeSubmit_sender_events: "list_all sender_event (nativeSubmit account fq)"
  by (simp add: nativeSubmit_def Let_def split: option.splits promise.splits)

lemma executeTxNative_sender_events: "list_all sender_event (events (executeTxNative env s))"
  by (simp add: executeTxNative_def nativeTry_literal nativeSubmit_sender_events
        split: option.splits promise.splits)

lemma executeTxEthers_sender_events: "list_all sender_event (events (executeTxEthers env s))"
  by (simp add: executeTxEthers_def ethersTry_literal split: option.splits promise.splits)








text \<open>The transaction hash under events that do not set it.\<close>

lemma keeps_hash_apply: "keeps_hash e \<Longrightarrow> transactionHash (apply_event e s) = transactionHash s"
  by (cases e) simp_all

lemma keeps_hash_final:
  "list_all keeps_hash es \<Longrightarrow> transactionHash (final_state es s) = transactionHash s"
  by (induction es arbitrary: s) (simp_all add: keeps_hash_apply)

lemma fetchBalance_keeps_hash: "list_all keeps_hash (events (fetchBalance env a))"
  by (simp add: fetchBalance_def Let_def split: option.splits promise.splits)

lemma fetchUserInfo_keeps_hash: "list_all keeps_hash (events (fetchUserInfo env))"
  by (simp add: fetchUserInfo_def split: accessor.splits option.splits promise.splits)

lemma loadUserData_keeps_hash: "list_all keeps_hash (events (loadUserData env))"
  using segments_keep [OF fetchBalance_keeps_hash] fetchUserInfo_keeps_hash
  by (simp add: loadUserData_def Let_def split: option.splits promise.splits completion.splits)

text \<open>The two fetchers inside the orchestrator.\<close>

lemma fetchBalance_first_segment:
  "first_segment (events (fetchBalance env a)) =
     (case publicClient env of None \<Rightarrow> [] | Some c \<Rightarrow> [Call (GetBalance a)])"
  by (simp add: fetchBalance_def first_segment_def split: option.splits)

lemma fetchBalance_continuation:
  "continuation (events (fetchBalance env a)) = drop 2 (events (fetchBalance env a))"
  by (simp add: fetchBalance_def continuation_def split: option.splits)

lemma observed_without_await: "Await \<notin> set es \<Longrightarrow> observed es s = []"
  by (induction es arbitrary: s) auto

lemma fetchUserInfo_never_suspends: "Await \<notin> set (events (fetchUserInfo env))"
  by (simp add: fetchUserInfo_def split: accessor.splits option.splits promise.splits)

lemma fetchers_fulfilled:
  "completion (fetchBalance env a) = Fulfilled" "completion (fetchUserInfo env) = Fulfilled"
  by (simp_all add: fetchBalance_def fetchUserInfo_def split: option.splits accessor.splits)

section \<open>The busy flag\<close>




text \<open>
  The flag is one boolean for both senders. The provider-based sender is called first
  and waits for its signer, the native sender is called and waits for its fee quotes,
  the signer arrives and the transfer is sent, then the native sender runs to its end:
  the flag is down although the provider-based sender still waits for its transfer.
\<close>

lemma overlapping_sends_share_the_flag:
  "isSending
     (final_state
        (upto_await 1 (events (executeTxEthers demo_hooks ready_state)) @
         upto_await 1 (events (executeTxNative demo_hooks ready_state)) @
         upto_await 1 (after_await 1 (events (executeTxEthers demo_hooks ready_state))) @
         after_await 1 (events (executeTxNative demo_hooks ready_state)))
        ready_state) = False \<and>
   after_await 2 (events (executeTxEthers demo_hooks ready_state)) =
     [Call WaitReceipt, Await, SetTransactionHash (Some ''0xdef''), SetIsSending False]"
  by (simp add: executeTxEthers_def executeTxNative_def customProvider_def demo_hooks_def
      demo_account_def demo_signer_def demo_quote_def ethersTry_literal nativeTry_literal
      nativeSubmit_def sponsoredOp_def sponsoredHash_def or_null_def ready_state_def
      initial_state_def numeral_2_eq_2)

section \<open>The account-load orchestrator\<close>

text \<open>
  Claim C2. \<^verbatim>\<open>loadUserData\<close> does nothing unless the connection is established and a
  smart account exists. Otherwise, once the address is resolved, it stores it in
  \<open>userAddress\<close> and runs the two fetches concurrently: the balance query is sent, the
  user-info fetch runs to its end in the same turn (it never suspends), and only then is
  the orchestrator suspended; the outcome of the balance query is handled after that
  suspension. So in the view seen while the orchestrator waits, the address and the
  outcome of the user-info fetch are in and the balance is still the old one. The
  balance it leaves is the one the balance fetch alone leaves, and the profile the one
  the user-info fetch alone leaves: a balance query that rejects does not keep the
  profile from being stored, and an accessor that throws does not keep the balance from
  being stored. No error leaves the orchestrator: its promise is fulfilled in every
  case, and an address that cannot be resolved is logged.
\<close>

theorem loadUserData_orchestrates:
  "completion (loadUserData env) = Fulfilled \<and>
   (\<not> isConnected env \<or> smartAccount env = None \<longrightarrow> events (loadUserData env) = []) \<and>
   (\<forall>account err.
      isConnected env \<and> smartAccount env = Some account \<and> getAddress account = Rejected err \<longrightarrow>
      events (loadUserData env) =
        [Call GetAddress, Await, ConsoleError ''Error loading account data:'' [ErrArg err]]) \<and>
   (\<forall>account address.
      isConnected env \<and> smartAccount env = Some account \<and>
      getAddress account = Resolved address \<longrightarrow>
      Await \<notin> set (events (fetchUserInfo env)) \<and>
      (publicClient env = None \<longrightarrow>
         events (loadUserData env) =
           [Call GetAddress, Await, SetUserAddress address] @ events (fetchUserInfo env) @
           [Await]) \<and>
      (\<forall>client err.
         publicClient env = Some client \<and> getBalance client address = Rejected err \<longrightarrow>
         events (loadUserData env) =
           [Call GetAddress, Await, SetUserAddress address, Call (GetBalance address)] @
           events (fetchUserInfo env) @
           [Await, ConsoleError ''Error fetching balance:'' [ErrArg err], SetBalance ''0.0'']) \<and>
      (\<forall>client v formatted.
         publicClient env = Some client \<and> getBalance client address = Resolved v \<and>
         formatBalance env (if v \<noteq> 0 then formatEther env v else ''0.0'') = Resolved formatted \<longrightarrow>
         events (loadUserData env) =
           [Call GetAddress, Await, SetUserAddress address, Call (GetBalance address)] @
           events (fetchUserInfo env) @ [Await, SetBalance formatted]) \<and>
      (\<forall>client v err.
         publicClient env = Some client \<and> getBalance client address = Resolved v \<and>
         formatBalance env (if v \<noteq> 0 then formatEther env v else ''0.0'') = Rejected err \<longrightarrow>
         events (loadUserData env) =
           [Call GetAddress, Await, SetUserAddress address, Call (GetBalance address)] @
           events (fetchUserInfo env) @
           [Await, ConsoleError ''Error fetching balance:'' [ErrArg err], SetBalance ''0.0'']) \<and>
      observed (events (loadUserData env)) s =
        [s, final_state (events (fetchUserInfo env)) (s\<lparr>userAddress := address\<rparr>)] \<and>
      balance (final_state (events (fetchUserInfo env)) (s\<lparr>userAddress := address\<rparr>))
        = balance s \<and>
      userAddress (final_state (events (loadUserData env)) s) = address \<and>
      balance (final_state (events (loadUserData env)) s) =
        balance (final_state (events (fetchBalance env address)) s) \<and>
      userInfo (final_state (events (loadUserData env)) s) =
        userInfo (final_state (events (fetchUserInfo env)) s) \<and>
      (\<forall>client err i.
         publicClient env = Some client \<and> getBalance client address = Rejected err \<and>
         getUserInfo env = Function (Resolved (Some i)) \<longrightarrow>
         userInfo (final_state (events (loadUserData env)) s) = Some i \<and>
         balance (final_state (events (loadUserData env)) s) = Some ''0.0'') \<and>
      (\<forall>client v formatted err.
         publicClient env = Some client \<and> getBalance client address = Resolved v \<and>
         formatBalance env (if v \<noteq> 0 then formatEther env v else ''0.0'') = Resolved formatted \<and>
         getUserInfo env = Function (Rejected err) \<longrightarrow>
         balance (final_state (events (loadUserData env)) s) = Some formatted \<and>
         userInfo (final_state (events (loadUserData env)) s) = userInfo s))"
proof -
  have settled: "completion (loadUserData env) = Fulfilled"
    by (simp add: loadUserData_def split: option.splits)
  have idle: "\<not> isConnected env \<or> smartAccount env = None \<longrightarrow> events (loadUserData env) = []"
    by (auto simp add: loadUserData_def)
  have locked: "events (loadUserData env) =
        [Call GetAddress, Await, ConsoleError ''Error loading account data:'' [ErrArg err]]"
    if "isConnected env \<and> smartAccount env = Some account \<and> getAddress account = Rejected err"
    for account err
    using that by (simp add: loadUserData_def)
  have loaded: "Await \<notin> set (events (fetchUserInfo env)) \<and>
      (publicClient env = None \<longrightarrow>
         events (loadUserData env) =
           [Call GetAddress, Await, SetUserAddress address] @ events (fetchUserInfo env) @
           [Await]) \<and>
      (\<forall>client err.
         publicClient env = Some client \<and> getBalance client address = Rejected err \<longrightarrow>
         events (loadUserData env) =
           [Call GetAddress, Await, SetUserAddress address, Call (GetBalance address)] @
           events (fetchUserInfo env) @
           [Await, ConsoleError ''Error fetching balance:'' [ErrArg err], SetBalance ''0.0'']) \<and>
      (\<forall>client v formatted.
         publicClient env = Some client \<and> getBalance client address = Resolved v \<and>
         formatBalance env (if v \<noteq> 0 then formatEther env v else ''0.0'') = Resolved formatted \<longrightarrow>
         events (loadUserData env) =
           [Call GetAddress, Await, SetUserAddress address, Call (GetBalance address)] @
           events (fetchUserInfo env) @ [Await, SetBalance formatted]) \<and>
      (\<forall>client v err.
         publicClient env = Some client \<and> getBalance client address = Resolved v \<and>
         formatBalance env (if v \<noteq> 0 then formatEther env v else ''0.0'') = Rejected err \<longrightarrow>
         events (loadUserData env) =
           [Call GetAddress, Await, SetUserAddress address, Call (GetBalance address)] @
           events (fetchUserInfo env) @
           [Await, ConsoleError ''Error fetching balance:'' [ErrArg err], SetBalance ''0.0'']) \<and>
      observed (events (loadUserData env)) s =
        [s, final_state (events (fetchUserInfo env)) (s\<lparr>userAddress := address\<rparr>)] \<and>
      balance (final_state (events (fetchUserInfo env)) (s\<lparr>userAddress := address\<rparr>))
        = balance s \<and>
      userAddress (final_state (events (loadUserData env)) s) = address \<and>
      balance (final_state (events (loadUserData env)) s) =
        balance (final_state (events (fetchBalance env address)) s) \<and>
      userInfo (final_state (events (loadUserData env)) s) =
        userInfo (final_state (events (fetchUserInfo env)) s) \<and>
      (\<forall>client err i.
         publicClient env = Some client \<and> getBalance client address = Rejected err \<and>
         getUserInfo env = Function (Resolved (Some i)) \<longrightarrow>
         userInfo (final_state (events (loadUserData env)) s) = Some i \<and>
         balance (final_state (events (loadUserData env)) s) = Some ''0.0'') \<and>
      (\<forall>client v formatted err.
         publicClient env = Some client \<and> getBalance client address = Resolved v \<and>
         formatBalance env (if v \<noteq> 0 then formatEther env v else ''0.0'') = Resolved formatted \<and>
         getUserInfo env = Function (Rejected err) \<longrightarrow>
         balance (final_state (events (loadUserData env)) s) = Some formatted \<and>
         userInfo (final_state (events (loadUserData env)) s) = userInfo s)"
    if h: "isConnected env \<and> smartAccount env = Some account \<and>
           getAddress account = Resolved address"
    for account address
  proof -
    have ev: "events (loadUserData env) =
        [Call GetAddress, Await, SetUserAddress address] @
        (case publicClient env of None \<Rightarrow> [] | Some c \<Rightarrow> [Call (GetBalance address)]) @
        events (fetchUserInfo env) @ [Await] @ drop 2 (events (fetchBalance env address))"
      using h
      by (simp add: loadUserData_def fetchers_fulfilled Let_def fetchBalance_first_segment
          fetchBalance_continuation)
    have na: "Await \<notin> set (events (fetchUserInfo env))"
      by (rule fetchUserInfo_never_suspends)
    have t0: "publicClient env = None \<longrightarrow>
         events (loadUserData env) =
           [Call GetAddress, Await, SetUserAddress address] @ events (fetchUserInfo env) @
           [Await]"
      by (simp add: ev fetchBalance_def)
    have t1: "events (loadUserData env) =
           [Call GetAddress, Await, SetUserAddress address, Call (GetBalance address)] @
           events (fetchUserInfo env) @
           [Await, ConsoleError ''Error fetching balance:'' [ErrArg err], SetBalance ''0.0'']"
      if "publicClient env = Some client \<and> getBalance client address = Rejected err"
      for client err
      using that by (simp add: ev fetchBalance_def)
    have t2: "events (loadUserData env) =
           [Call GetAddress, Await, SetUserAddress address, Call (GetBalance address)] @
           events (fetchUserInfo env) @ [Await, SetBalance formatted]"
      if "publicClient env = Some client \<and> getBalance client address = Resolved v \<and>
         formatBalance env (if v \<noteq> 0 then formatEther env v else ''0.0'') = Resolved formatted"
      for client v formatted
      using that by (simp add: ev fetchBalance_def Let_def)
    have t3: "events (loadUserData env) =
           [Call GetAddress, Await, SetUserAddress address, Call (GetBalance address)] @
           events (fetchUserInfo env) @
           [Await, ConsoleError ''Error fetching balance:'' [ErrArg err], SetBalance ''0.0'']"
      if "publicClient env = Some client \<and> getBalance client address = Resolved v \<and>
         formatBalance env (if v \<noteq> 0 then formatEther env v else ''0.0'') = Rejected err"
      for client v err
      using that by (simp add: ev fetchBalance_def Let_def)
    have ob: "observed (events (loadUserData env)) s =
        [s, final_state (events (fetchUserInfo env)) (s\<lparr>userAddress := address\<rparr>)]"
      by (cases "publicClient env")
         (simp_all add: ev observed_append final_state_append observed_without_await [OF na]
            fetchBalance_def Let_def split: promise.splits)
    have bal0: "balance (final_state (events (fetchUserInfo env)) (s\<lparr>userAddress := address\<rparr>))
        = balance s"
      by (simp add: fetchUserInfo_def split: accessor.splits option.splits promise.splits)
    have fin: "userAddress (final_state (events (loadUserData env)) s) = address \<and>
      balance (final_state (events (loadUserData env)) s) =
        balance (final_state (events (fetchBalance env address)) s) \<and>
      userInfo (final_state (events (loadUserData env)) s) =
        userInfo (final_state (events (fetchUserInfo env)) s)"
      by (auto simp add: ev final_state_append fetchBalance_def fetchUserInfo_def Let_def
          split: option.splits promise.splits accessor.splits)
    have i1: "userInfo (final_state (events (loadUserData env)) s) = Some i \<and>
         balance (final_state (events (loadUserData env)) s) = Some ''0.0''"
      if "publicClient env = Some client \<and> getBalance client address = Rejected err \<and>
         getUserInfo env = Function (Resolved (Some i))"
      for client err i
      using that fin by (simp add: fetchBalance_def fetchUserInfo_def)
    have i2: "balance (final_state (events (loadUserData env)) s) = Some formatted \<and>
         userInfo (final_state (events (loadUserData env)) s) = userInfo s"
      if "publicClient env = Some client \<and> getBalance client address = Resolved v \<and>
         formatBalance env (if v \<noteq> 0 then formatEther env v else ''0.0'') = Resolved formatted \<and>
         getUserInfo env = Function (Rejected err)"
      for client v formatted err
      using that fin by (simp add: fetchBalance_def fetchUserInfo_def Let_def)
    from na t0 t1 t2 t3 ob bal0 fin i1 i2 show ?thesis by blast
  qed
  from settled idle locked loaded show ?thesis by blast
qed

theorem loadUserData_orchestrates_witness:
  "events (loadUserData (demo_hooks\<lparr>isConnected := False\<rparr>)) = [] \<and>
   events (loadUserData (demo_hooks\<lparr>smartAccount := None\<rparr>)) = [] \<and>
   events (loadUserData locked_hooks) =
     [Call GetAddress, Await,
      ConsoleError ''Error loading account data:'' [ErrArg (JsError ''wallet'')]] \<and>
   events (loadUserData demo_hooks) =
     [Call GetAddress, Await, SetUserAddress ''0xa11ce'', Call (GetBalance ''0xa11ce''),
      ConsoleLog ''function'' [], Call GetUserInfo, SetUserInfo [(''name'', ''Ada'')],
      Await, SetBalance ''1.50''] \<and>
   events (loadUserData offline_hooks) =
     [Call GetAddress, Await, SetUserAddress ''0xa11ce'', Call (GetBalance ''0xa11ce''),
      ConsoleLog ''function'' [], Call GetUserInfo, SetUserInfo [(''name'', ''Ada'')],
      Await, ConsoleError ''Error fetching balance:'' [ErrArg (JsError ''rpc'')],
      SetBalance ''0.0''] \<and>
   observed (events (loadUserData demo_hooks)) initial_state =
     [initial_state,
      initial_state\<lparr>userAddress := ''0xa11ce'', userInfo := Some [(''name'', ''Ada'')]\<rparr>] \<and>
   completion (loadUserData offline_hooks) = Fulfilled \<and>
   userAddress (final_state (events (loadUserData offline_hooks)) initial_state) = ''0xa11ce'' \<and>
   userInfo (final_state (events (loadUserData offline_hooks)) initial_state)
     = Some [(''name'', ''Ada'')] \<and>
   balance (final_state (events (loadUserData offline_hooks)) initial_state) = Some ''0.0'' \<and>
   balance
     (final_state
        (events (loadUserData (demo_hooks\<lparr>getUserInfo := Function (Rejected (JsError ''auth''))\<rparr>)))
        initial_state) = Some ''1.50'' \<and>
   userInfo
     (final_state
        (events (loadUserData (demo_hooks\<lparr>getUserInfo := Function (Rejected (JsError ''auth''))\<rparr>)))
        initial_state) = None"
  using
    loadUserData_orchestrates [of "demo_hooks\<lparr>isConnected := False\<rparr>" initial_state]
    loadUserData_orchestrates [of "demo_hooks\<lparr>smartAccount := None\<rparr>" initial_state]
    loadUserData_orchestrates [of locked_hooks initial_state]
    loadUserData_orchestrates [of demo_hooks initial_state]
    loadUserData_orchestrates [of offline_hooks initial_state]
    loadUserData_orchestrates
      [of "demo_hooks\<lparr>getUserInfo := Function (Rejected (JsError ''auth''))\<rparr>" initial_state]
  by (simp add: offline_hooks_def locked_hooks_def demo_hooks_def demo_account_def
      initial_state_def fetchUserInfo_def)

section \<open>The native sender and the fee quotes\<close>



section \<open>The provider-based sender and the receipt\<close>

text \<open>
  Claim C6. For every provider-based send via \<^verbatim>\<open>executeTxEthers\<close> whose awaited
  confirmation resolves a receipt, \<open>transactionHash\<close> is set to exactly the receipt's
  hash (a transaction hash, so a non-empty string): the store is the last setter but
  the one that clears the busy flag, and it is what the view ends with.
\<close>

theorem executeTxEthers_stores_receipt_hash:
  assumes "customProvider env = Some provider"
    and "getSigner provider = Resolved signer"
    and "sendTransaction signer (ethersTx (recipientAddress s) (10 ^ 16)) = Resolved txResponse"
    and "wait txResponse = Resolved (Some txReceipt)"
    and "hash txReceipt \<noteq> []"
  shows "events (executeTxEthers env s) =
           [Call GetSigner, Await, SetIsSending True,
            Call (SendTransaction (ethersTx (recipientAddress s) (10 ^ 16))), Await,
            Call WaitReceipt, Await,
            SetTransactionHash (Some (hash txReceipt)), SetIsSending False] \<and>
         transactionHash (final_state (events (executeTxEthers env s)) s) =
           Some (hash txReceipt)"
  using assms by (simp add: executeTxEthers_def ethersTry_literal or_null_def)

theorem executeTxEthers_stores_receipt_hash_witness:
  "customProvider demo_hooks = Some \<lparr>getSigner = Resolved demo_signer\<rparr> \<and>
   sendTransaction demo_signer (ethersTx (recipientAddress sent_state) (10 ^ 16))
     = Resolved \<lparr>wait = Resolved (Some \<lparr>hash = ''0xdef''\<rparr>)\<rparr> \<and>
   hash \<lparr>hash = ''0xdef''\<rparr> \<noteq> [] \<and>
   transactionHash (final_state (events (executeTxEthers demo_hooks sent_state)) sent_state)
     = Some ''0xdef''"
proof -
  have p: "customProvider demo_hooks = Some \<lparr>getSigner = Resolved demo_signer\<rparr>"
    by (simp add: customProvider_def demo_hooks_def)
  have g: "getSigner \<lparr>getSigner = Resolved demo_signer\<rparr> = Resolved demo_signer"
    by simp
  have t: "sendTransaction demo_signer (ethersTx (recipientAddress sent_state) (10 ^ 16))
             = Resolved \<lparr>wait = Resolved (Some \<lparr>hash = ''0xdef''\<rparr>)\<rparr>"
    by (simp add: demo_signer_def)
  have w: "wait \<lparr>wait = Resolved (Some \<lparr>hash = ''0xdef''\<rparr>)\<rparr> = Resolved (Some \<lparr>hash = ''0xdef''\<rparr>)"
    by simp
  have n: "hash \<lparr>hash = ''0xdef''\<rparr> \<noteq> []"
    by simp
  show ?thesis
    using p t n executeTxEthers_stores_receipt_hash [OF p g t w n] by simp
qed

section \<open>The life of the transaction hash\<close>

text \<open>
  Claim C5, as stated, at a view that shows the hash of an earlier send and a native send
  whose submission resolves \<^verbatim>\<open>null\<close>: the hash is cleared back to \<^verbatim>\<open>null\<close>.
\<close>

theorem transactionHash_cleared_counterexample:
  "transactionHash sent_state = Some ''0x01'' \<and>
   transactionHash
     (final_state (events (perform (ExecuteTxNative null_hash_hooks) sent_state)) sent_state)
     = None"
  by (simp add: executeTxNative_def nativeTry_literal nativeSubmit_def null_hash_hooks_def
      demo_hooks_def demo_account_def demo_quote_def sponsoredOp_def sponsoredHash_def
      or_null_def sent_state_def initial_state_def)

text \<open>
  Claim C5, amended. \<open>transactionHash\<close> is written only by a sender whose submission has
  settled successfully: whenever an operation on the view (account load, balance fetch or
  refresh, user-info fetch, recipient input, either sender) leaves a \<open>transactionHash\<close>
  other than the one it found, the operation is a native send whose sponsored operation
  was submitted and resolved, or a provider-based send whose awaited confirmation
  resolved, and the new value is that result, with \<^verbatim>\<open>null\<close> in place of an absent or
  empty one. So a stored hash stays until a later send of that kind replaces it, by its
  hash or by \<^verbatim>\<open>null\<close>.
\<close>

theorem transactionHash_written_by_settled_send:
  assumes "transactionHash (final_state (events (perform op s)) s) \<noteq> transactionHash s"
  shows
    "(\<exists>env account fq uo h sent.
        op = ExecuteTxNative env \<and> smartAccount env = Some account \<and>
        getFeeQuotes account (nativeTx (recipientAddress s) (10 ^ 16)) = Resolved fq \<and>
        sponsoredOp fq = Some uo \<and> sponsoredHash fq = Some h \<and> h \<noteq> [] \<and>
        sendUserOperation account uo h = Resolved sent \<and>
        transactionHash (final_state (events (perform op s)) s) = or_null sent) \<or>
     (\<exists>env provider signer txResponse txReceipt.
        op = ExecuteTxEthers env \<and> customProvider env = Some provider \<and>
        getSigner provider = Resolved signer \<and>
        sendTransaction signer (ethersTx (recipientAddress s) (10 ^ 16)) = Resolved txResponse \<and>
        wait txResponse = Resolved txReceipt \<and>
        transactionHash (final_state (events (perform op s)) s) =
          or_null (map_option hash txReceipt))"
proof (cases op)
  case (LoadUserData env)
  with assms show ?thesis by (simp add: keeps_hash_final loadUserData_keeps_hash)
next
  case (FetchBalance env a)
  with assms show ?thesis by (simp add: keeps_hash_final fetchBalance_keeps_hash)
next
  case (FetchUserInfo env)
  with assms show ?thesis by (simp add: keeps_hash_final fetchUserInfo_keeps_hash)
next
  case (RefreshBalance env)
  with assms show ?thesis by (simp add: keeps_hash_final fetchBalance_keeps_hash)
next
  case (ChangeRecipient v)
  with assms show ?thesis by simp
next
  case (ExecuteTxNative env)
  with assms show ?thesis
    by (auto simp add: executeTxNative_def nativeTry_literal nativeSubmit_def Let_def
        split: option.splits promise.splits if_splits)
next
  case (ExecuteTxEthers env)
  with assms show ?thesis
    by (auto simp add: executeTxEthers_def ethersTry_literal
        split: option.splits promise.splits if_splits)
qed

theorem transactionHash_written_by_settled_send_witness:
  "transactionHash
     (final_state (events (perform (ExecuteTxEthers demo_hooks) sent_state)) sent_state)
     \<noteq> transactionHash sent_state \<and>
   (\<exists>provider signer txResponse txReceipt.
      customProvider demo_hooks = Some provider \<and> getSigner provider = Resolved signer \<and>
      sendTransaction signer (ethersTx (recipientAddress sent_state) (10 ^ 16))
        = Resolved txResponse \<and>
      wait txResponse = Resolved txReceipt \<and>
      transactionHash
        (final_state (events (perform (ExecuteTxEthers demo_hooks) sent_state)) sent_state)
        = or_null (map_option hash txReceipt))"
proof -
  have h: "transactionHash
     (final_state (events (perform (ExecuteTxEthers demo_hooks) sent_state)) sent_state)
     \<noteq> transactionHash sent_state"
    by (simp add: executeTxEthers_def customProvider_def demo_hooks_def demo_signer_def
        ethersTry_literal or_null_def sent_state_def)
  show ?thesis
    using h transactionHash_written_by_settled_send [OF h] by simp
qed

section \<open>The transfer that is built\<close>

text \<open>
  Claim C8. \<^verbatim>\<open>parseEther("0.01")\<close> is \<open>10 ^ 16\<close> base units, printed as the decimal
  string \<^verbatim>\<open>10000000000000000\<close>. Every transaction the native sender asks fee quotes for
  has that value, the recipient of the view and the payload \<^verbatim>\<open>"0x"\<close>, and it asks
  whenever there is a smart account. Every transaction the provider-based sender sends
  has the same value and recipient and no payload, and it sends one whenever the signer
  is obtained.
\<close>

theorem senders_transfer:
  "parseEther ''0.01'' = Some (10 ^ 16) \<and>
   bigintToString (10 ^ 16) = ''10000000000000000'' \<and>
   (\<forall>t. Call (GetFeeQuotes t) \<in> set (events (executeTxNative env s)) \<longrightarrow>
      t = \<lparr>tx_to = recipientAddress s, tx_value = ''10000000000000000'', tx_data = Some ''0x''\<rparr>) \<and>
   (smartAccount env \<noteq> None \<longrightarrow>
      Call (GetFeeQuotes
        \<lparr>tx_to = recipientAddress s, tx_value = ''10000000000000000'', tx_data = Some ''0x''\<rparr>)
        \<in> set (events (executeTxNative env s))) \<and>
   (\<forall>t. Call (SendTransaction t) \<in> set (events (executeTxEthers env s)) \<longrightarrow>
      t = \<lparr>tx_to = recipientAddress s, tx_value = ''10000000000000000'', tx_data = None\<rparr>) \<and>
   (\<forall>provider signer.
      customProvider env = Some provider \<and> getSigner provider = Resolved signer \<longrightarrow>
      Call (SendTransaction
        \<lparr>tx_to = recipientAddress s, tx_value = ''10000000000000000'', tx_data = None\<rparr>)
        \<in> set (events (executeTxEthers env s)))"
proof -
  have p: "parseEther ''0.01'' = Some (10 ^ 16)"
    by (simp add: parseEther_literal)
  have b: "bigintToString (10 ^ 16) = ''10000000000000000''"
    using bigintToString_literal by simp
  have sub: "Call (GetFeeQuotes t) \<notin> set (nativeSubmit account fq)" for t account fq
    by (simp add: nativeSubmit_def Let_def split: option.splits promise.splits)
  have n1: "Call (GetFeeQuotes t) \<in> set (events (executeTxNative env s)) \<longrightarrow>
      t = \<lparr>tx_to = recipientAddress s, tx_value = ''10000000000000000'', tx_data = Some ''0x''\<rparr>"
    for t
    by (simp add: executeTxNative_def nativeTry_literal nativeTx_def bigintToString_literal sub
        split: option.splits promise.splits)
  have n2: "smartAccount env \<noteq> None \<longrightarrow>
      Call (GetFeeQuotes
        \<lparr>tx_to = recipientAddress s, tx_value = ''10000000000000000'', tx_data = Some ''0x''\<rparr>)
        \<in> set (events (executeTxNative env s))"
    by (simp add: executeTxNative_def nativeTry_literal nativeTx_def bigintToString_literal
        split: option.splits promise.splits)
  have e1: "Call (SendTransaction t) \<in> set (events (executeTxEthers env s)) \<longrightarrow>
      t = \<lparr>tx_to = recipientAddress s, tx_value = ''10000000000000000'', tx_data = None\<rparr>"
    for t
    by (simp add: executeTxEthers_def ethersTry_literal ethersTx_def bigintToString_literal
        split: option.splits promise.splits)
  have e2: "customProvider env = Some provider \<and> getSigner provider = Resolved signer \<longrightarrow>
      Call (SendTransaction
        \<lparr>tx_to = recipientAddress s, tx_value = ''10000000000000000'', tx_data = None\<rparr>)
        \<in> set (events (executeTxEthers env s))" for provider signer
    by (simp add: executeTxEthers_def ethersTry_literal ethersTx_def bigintToString_literal
        split: option.splits promise.splits)
  from p b n1 n2 e1 e2 show ?thesis by blast
qed

theorem senders_transfer_witness:
  "Call (GetFeeQuotes
     \<lparr>tx_to = ''0xb0b'', tx_value = ''10000000000000000'', tx_data = Some ''0x''\<rparr>)
     \<in> set (events (executeTxNative demo_hooks sent_state)) \<and>
   Call (SendTransaction
     \<lparr>tx_to = ''0xb0b'', tx_value = ''10000000000000000'', tx_data = None\<rparr>)
     \<in> set (events (executeTxEthers demo_hooks sent_state))"
  using senders_transfer [of demo_hooks sent_state]
  by (simp add: customProvider_def demo_hooks_def sent_state_def)

section \<open>The native sender without a smart account\<close>

text \<open>
  Claim C9. When there is no smart account handle, \<^verbatim>\<open>executeTxNative\<close> completes without
  throwing: the optional call yields no fee quotes and so no sponsored operation, the
  error \<^verbatim>\<open>User operation is undefined\<close> is logged, \<open>transactionHash\<close> is what it was,
  and \<open>isSending\<close> ends false.
\<close>

theorem executeTxNative_without_account:
  "smartAccount env = None \<Longrightarrow>
   completion (executeTxNative env s) = Fulfilled \<and>
   events (executeTxNative env s) =
     [SetIsSending True, Await, ConsoleError ''User operation is undefined'' [],
      SetIsSending False] \<and>
   transactionHash (final_state (events (executeTxNative env s)) s) = transactionHash s \<and>
   isSending (final_state (events (executeTxNative env s)) s) = False"
  by (simp add: executeTxNative_def nativeTry_literal)

theorem executeTxNative_without_account_witness:
  "smartAccount (demo_hooks\<lparr>smartAccount := None\<rparr>) = None \<and>
   completion (executeTxNative (demo_hooks\<lparr>smartAccount := None\<rparr>) sent_state) = Fulfilled \<and>
   transactionHash
     (final_state (events (executeTxNative (demo_hooks\<lparr>smartAccount := None\<rparr>) sent_state))
        sent_state) = Some ''0x01'' \<and>
   isSending
     (final_state (events (executeTxNative (demo_hooks\<lparr>smartAccount := None\<rparr>) sent_state))
        sent_state) = False"
  using executeTxNative_without_account [of "demo_hooks\<lparr>smartAccount := None\<rparr>" sent_state]
  by (simp add: sent_state_def)

section \<open>What the senders leave alone\<close>

text \<open>
  Claim C10. Each sender modifies only \<open>isSending\<close> and \<open>transactionHash\<close>: for every
  execution of \<^verbatim>\<open>executeTxNative\<close> or \<^verbatim>\<open>executeTxEthers\<close>, whatever the SDK calls do,
  \<open>userAddress\<close>, \<open>userInfo\<close>, \<open>balance\<close> and \<open>recipientAddress\<close> are the same at the end
  and at every suspension as at the invocation.
\<close>

theorem senders_frame:
  "frame (final_state (events (executeTxNative env s)) s) = frame s \<and>
   (\<forall>s' \<in> set (observed (events (executeTxNative env s)) s). frame s' = frame s) \<and>
   frame (final_state (events (executeTxEthers env s)) s) = frame s \<and>
   (\<forall>s' \<in> set (observed (events (executeTxEthers env s)) s). frame s' = frame s)"
  using executeTxNative_sender_events [of env s] executeTxEthers_sender_events [of env s]
  by (auto simp add: sender_events_final dest: sender_events_observed)

theorem senders_frame_witness:
  "frame (final_state (events (executeTxNative demo_hooks sent_state)) sent_state)
     = (''0xa11ce'', None, None, ''0xb0b'') \<and>
   frame (final_state (events (executeTxEthers demo_hooks sent_state)) sent_state)
     = (''0xa11ce'', None, None, ''0xb0b'') \<and>
   frame (hd (observed (events (executeTxEthers rejecting_hooks sent_state)) sent_state))
     = (''0xa11ce'', None, None, ''0xb0b'')"
  using senders_frame [of demo_hooks sent_state] senders_frame [of rejecting_hooks sent_state]
  by (simp add: frame_def sent_state_def initial_state_def executeTxEthers_def customProvider_def
      rejecting_hooks_def demo_hooks_def ethersTry_literal)

end
